theory Spec2Isabelle
  imports Main
begin

section \<open>Grouped MoE GEMM: configuration dispatch and launch\<close>

text \<open>
  A shallow embedding of \<^verbatim>\<open>moe_gemm_kernels_template.h\<close>. C++ template parameters
  become ordinary arguments, an \<^verbatim>\<open>ORT_THROW\<close> becomes an error value, and every call
  that leaves the file (device queries, the CUTLASS grouped GEMM object) is appended to a
  log kept in the state, so that "no kernel launch" and "no device query" are statements
  about that log.
\<close>

subsection \<open>Configuration data\<close>

text \<open>
  The declarations of \<^verbatim>\<open>CutlassTileConfig\<close>, \<^verbatim>\<open>SplitKStyle\<close>, \<^verbatim>\<open>CutlassGemmConfig\<close> and
  \<^verbatim>\<open>ActivationType\<close> are included by the source file but are not part of it. The
  constructors below are the enumerators the source file names in its switches; the
  fields are the ones it reads.
\<close>

datatype CutlassTileConfig =
    Undefined
  | ChooseWithHeuristic
  | CtaShape128x128x8_WarpShape64x64x8
  | CtaShape32x128x64_WarpShape32x32x64
  | CtaShape64x128x64_WarpShape32x64x64
  | CtaShape64x128x64_WarpShape64x32x64
  | CtaShape128x128x64_WarpShape64x32x64
  | CtaShape128x128x64_WarpShape128x32x64

datatype SplitKStyle = NO_SPLIT_K | SPLIT_K_SERIAL

record CutlassGemmConfig =
  tile_config :: CutlassTileConfig
  split_k_style :: SplitKStyle
  split_k_factor :: int
  stages :: int

text \<open>\<open>OtherActivation\<close> stands for every enumerator the switch of
  \<^verbatim>\<open>moe_gemm_bias_act\<close> does not name (its \<^verbatim>\<open>default\<close> branch).\<close>

datatype ActivationType = Relu | Gelu | Silu | Identity | InvalidType | OtherActivation

datatype EpilogueTag =
    EpilogueOpBiasReLU
  | EpilogueOpBiasFtGelu
  | EpilogueOpBiasSilu
  | EpilogueOpBias
  | EpilogueOpNoBias

text \<open>The element types the two \<^verbatim>\<open>static_assert\<close>s of the launcher admit for
  \<^verbatim>\<open>T\<close> and \<^verbatim>\<open>WeightType\<close>.\<close>

datatype dtype = Half | Float | UInt8 | UInt4b

datatype arch = Sm70 | Sm75 | Sm80

type_synonym GemmShape = "nat \<times> nat \<times> nat"

text \<open>One instantiation of \<^verbatim>\<open>generic_moe_gemm_kernelLauncher\<close>: its seven template
  arguments. The CUTLASS kernel type is a function of them.\<close>

record GemmKernel =
  k_T :: dtype
  k_WeightType :: dtype
  k_arch :: arch
  k_EpilogueTag :: EpilogueTag
  k_ThreadblockShape :: GemmShape
  k_WarpShape :: GemmShape
  k_Stages :: int

text \<open>A pointer is an address, 0 for \<^verbatim>\<open>nullptr\<close>. The row-boundary table is kept by
  its contents, since one claim speaks of its length.\<close>

type_synonym ptr = nat

record gemm_call =
  A :: ptr
  B :: ptr
  weight_scales :: ptr
  biases :: ptr
  C :: ptr
  total_rows_before_expert :: "int list"
  total_rows :: int
  gemm_n :: int
  gemm_k :: int
  num_experts :: int
  stream :: nat

text \<open>\<^verbatim>\<open>GemmGrouped::Arguments\<close> as the launcher fills it. The epilogue parameters are
  the constants (1, 0) and are left out.\<close>

record Arguments =
  arg_num_experts :: int
  arg_threadblock_count :: int
  arg_A :: ptr
  arg_B :: ptr
  arg_weight_scales :: ptr
  arg_biases :: ptr
  arg_C :: ptr
  arg_total_rows_before_expert :: "int list"
  arg_gemm_n :: int
  arg_gemm_k :: int

datatype Status = kSuccess | kError string

datatype path = SameType | MixedType | SIMT

datatype error =
    SplitKNotSupported
  | LacksSharedMemory
  | CannotImplement Status
  | InitializeFailed Status
  | RunFailed Status
  | StagesNotInstantiated arch int
  | StagesNotSupported int
  | GemmConfigUndefined path
  | GemmConfigNotSetByHeuristic path
  | GemmConfigInvalid path
  | ArchUnsupported
  | InvalidActivationType
  | NoViableConfiguration

subsection \<open>State and external collaborators\<close>

text \<open>Calls that leave the file, in the order they are made. \<open>Run\<close> is
  \<^verbatim>\<open>gemm.run(stream)\<close>, the only kernel launch.\<close>

datatype ext_call =
    ComputeOccupancy GemmKernel
  | MaximumActiveBlocks GemmKernel
  | CanImplement GemmKernel Arguments
  | Initialize GemmKernel Arguments
  | Run GemmKernel Arguments nat

text \<open>\<open>occupancies\<close> is the host vector the occupancy out-pointer points into, and a
  non-null out-pointer is an index into it (\<^verbatim>\<open>&occupancies[ii]\<close> is the only one the
  source file passes, with \<open>ii\<close> in range); \<open>mem\<close> is device memory, which holds the
  output buffer.\<close>

record 'm state =
  calls :: "ext_call list"
  occupancies :: "int list"
  mem :: 'm

text \<open>
  Modelled from the spec: \<^verbatim>\<open>get_candidate_configs\<close> (the Configuration Catalog),
  \<^verbatim>\<open>compute_occupancy_for_kernel\<close> (the Occupancy Prober) and the CUTLASS grouped GEMM
  object (\<^verbatim>\<open>maximum_active_blocks\<close>, \<^verbatim>\<open>can_implement\<close>, \<^verbatim>\<open>initialize\<close>, \<^verbatim>\<open>run\<close>) are not
  in the source file. They are parameters here, with the argument lists the source file
  calls them with: the catalog is a function of its arguments, the occupancy queries are
  functions of the kernel instantiation on the current device, and \<open>gemm_run\<close> is the
  only one that may change device memory. \<open>config_score\<close> is the scoring function of the
  Heuristic Selector, which the spec leaves to the implementation: it ranks a candidate
  from its occupancy, the problem shape (total rows, output width, reduction depth,
  expert count) and the concurrency budget.
\<close>

record 'm env =
  get_candidate_configs :: "int \<Rightarrow> bool \<Rightarrow> bool \<Rightarrow> CutlassGemmConfig list"
  config_score :: "CutlassGemmConfig \<Rightarrow> int \<Rightarrow> int \<Rightarrow> int \<Rightarrow> int \<Rightarrow> int \<Rightarrow> int \<Rightarrow> int"
  compute_occupancy_for_kernel :: "GemmKernel \<Rightarrow> int"
  maximum_active_blocks :: "GemmKernel \<Rightarrow> int"
  gemm_can_implement :: "GemmKernel \<Rightarrow> Arguments \<Rightarrow> Status"
  gemm_initialize :: "GemmKernel \<Rightarrow> Arguments \<Rightarrow> Status"
  gemm_run :: "GemmKernel \<Rightarrow> Arguments \<Rightarrow> nat \<Rightarrow> 'm \<Rightarrow> Status \<times> 'm"
  device_multi_processor_count :: int

text \<open>The runner: its two template arguments and its two data members.\<close>

record MoeGemmRunner =
  elem_type :: dtype
  weight_type :: dtype
  sm :: int
  multi_processor_count :: int

type_synonym 'm result = "error option \<times> 'm state"

subsection \<open>The kernel launcher\<close>

definition log_call :: "ext_call \<Rightarrow> 'm state \<Rightarrow> 'm state" where
  "log_call c s = s\<lparr>calls := calls s @ [c]\<rparr>"

text \<open>The constructor call \<^verbatim>\<open>GemmGrouped::Arguments args(num_experts, threadblock_count,
  epilogue_op, A, B, weight_scales, biases, C, total_rows_before_expert, gemm_n, gemm_k)\<close>.\<close>

definition grouped_arguments :: "gemm_call \<Rightarrow> int \<Rightarrow> Arguments" where
  "grouped_arguments a threadblock_count =
    \<lparr>arg_num_experts = num_experts a,
     arg_threadblock_count = threadblock_count,
     arg_A = A a, arg_B = B a,
     arg_weight_scales = weight_scales a,
     arg_biases = biases a, arg_C = C a,
     arg_total_rows_before_expert = total_rows_before_expert a,
     arg_gemm_n = gemm_n a, arg_gemm_k = gemm_k a\<rparr>"

text \<open>The threadblock count is a product of two C++ \<^verbatim>\<open>int\<close>s, which are 32 bits wide.
  A product outside the range of \<^verbatim>\<open>int\<close> wraps around in two's complement, as the
  compiled code does.\<close>

definition wrap_int32 :: "int \<Rightarrow> int" where
  "wrap_int32 x = (x + 2147483648) mod 4294967296 - 2147483648"

definition generic_moe_gemm_kernelLauncher ::
  "'m env \<Rightarrow> GemmKernel \<Rightarrow> gemm_call \<Rightarrow> CutlassGemmConfig \<Rightarrow> int \<Rightarrow> nat option
    \<Rightarrow> 'm state \<Rightarrow> 'm result" where
  "generic_moe_gemm_kernelLauncher env k a gemm_config mp_count kernel_occupancy s =
    (if split_k_style gemm_config \<noteq> NO_SPLIT_K then (Some SplitKNotSupported, s)
     else case kernel_occupancy of
       Some p \<Rightarrow>
         (None, (log_call (ComputeOccupancy k) s)
                  \<lparr>occupancies := (occupancies s)[p := compute_occupancy_for_kernel env k]\<rparr>)
     | None \<Rightarrow>
         (let s1 = log_call (MaximumActiveBlocks k) s;
              occupancy = min 2 (maximum_active_blocks env k)
          in if occupancy = 0 then (Some LacksSharedMemory, s1)
             else
               (let threadblock_count = wrap_int32 (mp_count * occupancy);
                    args = grouped_arguments a threadblock_count;
                    s2 = log_call (CanImplement k args) s1;
                    can_implement = gemm_can_implement env k args
                in if can_implement \<noteq> kSuccess then (Some (CannotImplement can_implement), s2)
                   else
                     (let s3 = log_call (Initialize k args) s2;
                          init_status = gemm_initialize env k args
                      in if init_status \<noteq> kSuccess
                         then (Some (InitializeFailed init_status), s3)
                         else
                           (let (run_status, m') = gemm_run env k args (stream a) (mem s3);
                                s4 = (log_call (Run k args (stream a)) s3)\<lparr>mem := m'\<rparr>
                            in if run_status \<noteq> kSuccess
                               then (Some (RunFailed run_status), s4)
                               else (None, s4))))))"

subsection \<open>Dispatch on stages, tile and architecture\<close>

text \<open>The three definitions of \<^verbatim>\<open>dispatch_stages\<close>: the partial specialisation for
  \<^verbatim>\<open>Stages = 2\<close>, the one for \<^verbatim>\<open>Sm80\<close> with \<^verbatim>\<open>Stages > 2\<close>, and the primary template,
  which throws.\<close>

definition dispatch_stages ::
  "'m env \<Rightarrow> dtype \<Rightarrow> dtype \<Rightarrow> arch \<Rightarrow> EpilogueTag \<Rightarrow> GemmShape \<Rightarrow> GemmShape \<Rightarrow> int
    \<Rightarrow> gemm_call \<Rightarrow> CutlassGemmConfig \<Rightarrow> int \<Rightarrow> nat option \<Rightarrow> 'm state \<Rightarrow> 'm result" where
  "dispatch_stages env T W ar tag tb warp Stages a gemm_config mp_count occupancy s =
    (if Stages = 2 then
       generic_moe_gemm_kernelLauncher env
         \<lparr>k_T = T, k_WeightType = W, k_arch = ar, k_EpilogueTag = tag,
          k_ThreadblockShape = tb, k_WarpShape = warp, k_Stages = 2\<rparr>
         a gemm_config mp_count occupancy s
     else if ar = Sm80 \<and> Stages > 2 then
       generic_moe_gemm_kernelLauncher env
         \<lparr>k_T = T, k_WeightType = W, k_arch = Sm80, k_EpilogueTag = tag,
          k_ThreadblockShape = tb, k_WarpShape = warp, k_Stages = Stages\<rparr>
         a gemm_config mp_count occupancy s
     else (Some (StagesNotInstantiated ar Stages), s))"

definition dispatch_gemm_config ::
  "'m env \<Rightarrow> dtype \<Rightarrow> dtype \<Rightarrow> arch \<Rightarrow> EpilogueTag \<Rightarrow> GemmShape \<Rightarrow> GemmShape
    \<Rightarrow> gemm_call \<Rightarrow> CutlassGemmConfig \<Rightarrow> int \<Rightarrow> nat option \<Rightarrow> 'm state \<Rightarrow> 'm result" where
  "dispatch_gemm_config env T W ar tag tb warp a gemm_config mp_count occupancy s =
    (if stages gemm_config = 2 then
       dispatch_stages env T W ar tag tb warp 2 a gemm_config mp_count occupancy s
     else if stages gemm_config = 3 then
       dispatch_stages env T W ar tag tb warp 3 a gemm_config mp_count occupancy s
     else if stages gemm_config = 4 then
       dispatch_stages env T W ar tag tb warp 4 a gemm_config mp_count occupancy s
     else (Some (StagesNotSupported (stages gemm_config)), s))"

text \<open>The overload for \<^verbatim>\<open>T\<close> not float and \<^verbatim>\<open>T == WeightType\<close>.\<close>

definition dispatch_moe_gemm_to_cutlass_same_type ::
  "'m env \<Rightarrow> dtype \<Rightarrow> dtype \<Rightarrow> arch \<Rightarrow> EpilogueTag
    \<Rightarrow> gemm_call \<Rightarrow> CutlassGemmConfig \<Rightarrow> int \<Rightarrow> int \<Rightarrow> nat option \<Rightarrow> 'm state \<Rightarrow> 'm result" where
  "dispatch_moe_gemm_to_cutlass_same_type env T W ar tag a gemm_config sm_version mp_count occupancy s =
    (case tile_config gemm_config of
       CtaShape32x128x64_WarpShape32x32x64 \<Rightarrow>
         dispatch_gemm_config env T W ar tag (32, 128, 64) (32, 32, 64) a gemm_config mp_count occupancy s
     | CtaShape64x128x64_WarpShape32x64x64 \<Rightarrow>
         dispatch_gemm_config env T W ar tag (64, 128, 64) (32, 64, 64) a gemm_config mp_count occupancy s
     | CtaShape128x128x64_WarpShape64x32x64 \<Rightarrow>
         dispatch_gemm_config env T W ar tag (128, 128, 64) (64, 32, 64) a gemm_config mp_count occupancy s
     | Undefined \<Rightarrow> (Some (GemmConfigUndefined SameType), s)
     | ChooseWithHeuristic \<Rightarrow> (Some (GemmConfigNotSetByHeuristic SameType), s)
     | _ \<Rightarrow> (Some (GemmConfigInvalid SameType), s))"

text \<open>The overload for \<^verbatim>\<open>T\<close> not float and \<^verbatim>\<open>T != WeightType\<close> (quantised weights).\<close>

definition dispatch_moe_gemm_to_cutlass_mixed_type ::
  "'m env \<Rightarrow> dtype \<Rightarrow> dtype \<Rightarrow> arch \<Rightarrow> EpilogueTag
    \<Rightarrow> gemm_call \<Rightarrow> CutlassGemmConfig \<Rightarrow> int \<Rightarrow> int \<Rightarrow> nat option \<Rightarrow> 'm state \<Rightarrow> 'm result" where
  "dispatch_moe_gemm_to_cutlass_mixed_type env T W ar tag a gemm_config sm_version mp_count occupancy s =
    (case tile_config gemm_config of
       CtaShape32x128x64_WarpShape32x32x64 \<Rightarrow>
         dispatch_gemm_config env T W ar tag (32, 128, 64) (32, 32, 64) a gemm_config mp_count occupancy s
     | CtaShape64x128x64_WarpShape64x32x64 \<Rightarrow>
         dispatch_gemm_config env T W ar tag (64, 128, 64) (64, 32, 64) a gemm_config mp_count occupancy s
     | CtaShape128x128x64_WarpShape128x32x64 \<Rightarrow>
         dispatch_gemm_config env T W ar tag (128, 128, 64) (128, 32, 64) a gemm_config mp_count occupancy s
     | Undefined \<Rightarrow> (Some (GemmConfigUndefined MixedType), s)
     | ChooseWithHeuristic \<Rightarrow> (Some (GemmConfigNotSetByHeuristic MixedType), s)
     | _ \<Rightarrow> (Some (GemmConfigInvalid MixedType), s))"

text \<open>The overload for \<^verbatim>\<open>T\<close> float (SIMT).\<close>

definition dispatch_moe_gemm_to_cutlass_simt ::
  "'m env \<Rightarrow> dtype \<Rightarrow> dtype \<Rightarrow> arch \<Rightarrow> EpilogueTag
    \<Rightarrow> gemm_call \<Rightarrow> CutlassGemmConfig \<Rightarrow> int \<Rightarrow> int \<Rightarrow> nat option \<Rightarrow> 'm state \<Rightarrow> 'm result" where
  "dispatch_moe_gemm_to_cutlass_simt env T W ar tag a gemm_config sm_version mp_count occupancy s =
    (case tile_config gemm_config of
       CtaShape128x128x8_WarpShape64x64x8 \<Rightarrow>
         dispatch_gemm_config env T W ar tag (128, 128, 8) (64, 64, 8) a gemm_config mp_count occupancy s
     | Undefined \<Rightarrow> (Some (GemmConfigUndefined SIMT), s)
     | ChooseWithHeuristic \<Rightarrow> (Some (GemmConfigNotSetByHeuristic SIMT), s)
     | _ \<Rightarrow> (Some (GemmConfigInvalid SIMT), s))"

text \<open>Overload resolution: the three \<^verbatim>\<open>enable_if\<close> conditions are exclusive and
  cover every pair of types.\<close>

definition dispatch_moe_gemm_to_cutlass ::
  "'m env \<Rightarrow> dtype \<Rightarrow> dtype \<Rightarrow> arch \<Rightarrow> EpilogueTag
    \<Rightarrow> gemm_call \<Rightarrow> CutlassGemmConfig \<Rightarrow> int \<Rightarrow> int \<Rightarrow> nat option \<Rightarrow> 'm state \<Rightarrow> 'm result" where
  "dispatch_moe_gemm_to_cutlass env T W ar tag a gemm_config sm_version mp_count occupancy s =
    (if T \<noteq> Float \<and> T = W then
       dispatch_moe_gemm_to_cutlass_same_type env T W ar tag a gemm_config sm_version mp_count occupancy s
     else if T \<noteq> Float \<and> T \<noteq> W then
       dispatch_moe_gemm_to_cutlass_mixed_type env T W ar tag a gemm_config sm_version mp_count occupancy s
     else
       dispatch_moe_gemm_to_cutlass_simt env T W ar tag a gemm_config sm_version mp_count occupancy s)"

subsection \<open>The runner\<close>

definition initialize :: "'m env \<Rightarrow> int \<Rightarrow> MoeGemmRunner \<Rightarrow> MoeGemmRunner" where
  "initialize env sm_version r =
    r\<lparr>sm := sm_version, multi_processor_count := device_multi_processor_count env\<rparr>"

definition dispatch_to_arch ::
  "'m env \<Rightarrow> MoeGemmRunner \<Rightarrow> EpilogueTag \<Rightarrow> gemm_call \<Rightarrow> CutlassGemmConfig \<Rightarrow> nat option
    \<Rightarrow> 'm state \<Rightarrow> 'm result" where
  "dispatch_to_arch env r tag a gemm_config occupancy s =
    (if sm r \<ge> 70 \<and> sm r < 75 then
       dispatch_moe_gemm_to_cutlass env (elem_type r) (weight_type r) Sm70 tag a gemm_config
         (sm r) (multi_processor_count r) occupancy s
     else if sm r \<ge> 75 \<and> sm r < 80 then
       dispatch_moe_gemm_to_cutlass env (elem_type r) (weight_type r) Sm75 tag a gemm_config
         (sm r) (multi_processor_count r) occupancy s
     else if sm r \<ge> 80 \<and> sm r < 90 then
       dispatch_moe_gemm_to_cutlass env (elem_type r) (weight_type r) Sm80 tag a gemm_config
         (sm r) (multi_processor_count r) occupancy s
     else (Some ArchUnsupported, s))"

text \<open>
  Modelled from the spec: the choice the Heuristic Selector makes among the candidates,
  each paired with its occupancy. Configurations with zero occupancy are excluded; of
  the others the one with the highest score is chosen, the earlier one among equals
  (the spec leaves the scoring and the order among equals to the implementation). There
  is no choice when every candidate has occupancy zero.
\<close>

fun best_scored ::
  "(CutlassGemmConfig \<Rightarrow> int \<Rightarrow> int) \<Rightarrow> (CutlassGemmConfig \<times> int) list
    \<Rightarrow> (CutlassGemmConfig \<times> int) option" where
  "best_scored sc [] = None"
| "best_scored sc ((c, occ) # rest) =
    (if occ = 0 then best_scored sc rest
     else case best_scored sc rest of
            None \<Rightarrow> Some (c, occ)
          | Some (c', occ') \<Rightarrow> if sc c occ < sc c' occ' then Some (c', occ') else Some (c, occ))"

text \<open>
  Modelled from the spec: \<^verbatim>\<open>estimate_best_config_from_occupancies\<close> (the Heuristic
  Selector) is not in the source file; it has the argument list \<^verbatim>\<open>run_gemm\<close> calls it
  with. The spec: given the candidate list with each one's occupancy value, plus the
  problem shape (total rows, output width, reduction depth, expert count) and the
  concurrency budget (multiprocessor count times occupancy), it chooses exactly one
  configuration; configurations with zero occupancy are excluded; the scoring is an
  implementation heuristic, but the choice is a function of candidates, occupancies,
  problem shape and concurrency budget only; an occupancy of zero for all candidates is
  fatal, since no configuration is viable. So the split-k limit, the workspace size and
  the weight-only flag take no part in the choice.
\<close>

definition estimate_best_config_from_occupancies ::
  "'m env \<Rightarrow> CutlassGemmConfig list \<Rightarrow> int list \<Rightarrow> int \<Rightarrow> int \<Rightarrow> int \<Rightarrow> int \<Rightarrow> int \<Rightarrow> int
    \<Rightarrow> int \<Rightarrow> bool \<Rightarrow> error + CutlassGemmConfig" where
  "estimate_best_config_from_occupancies env candidate_configs occs m n k experts
      split_k_limit workspace_bytes mp_count is_weight_only =
    (case best_scored (\<lambda>c occ. config_score env c occ m n k experts (mp_count * occ))
            (zip candidate_configs occs) of
       None \<Rightarrow> Inl NoViableConfiguration
     | Some (c, occ) \<Rightarrow> Inr c)"

text \<open>The probing loop of \<^verbatim>\<open>run_gemm\<close>: candidate \<open>ii\<close> is dispatched with the
  out-pointer \<^verbatim>\<open>&occupancies[ii]\<close>. An exception leaves the loop.\<close>

fun probe_candidates ::
  "'m env \<Rightarrow> MoeGemmRunner \<Rightarrow> EpilogueTag \<Rightarrow> gemm_call \<Rightarrow> CutlassGemmConfig list \<Rightarrow> nat
    \<Rightarrow> 'm state \<Rightarrow> 'm result" where
  "probe_candidates env r tag a [] ii s = (None, s)"
| "probe_candidates env r tag a (c # cs) ii s =
    (case dispatch_to_arch env r tag a c (Some ii) s of
       (Some e, s') \<Rightarrow> (Some e, s')
     | (None, s') \<Rightarrow> probe_candidates env r tag a cs (Suc ii) s')"

text \<open>An exception of the selector leaves \<^verbatim>\<open>run_gemm\<close>, like one of a dispatch.\<close>

definition run_gemm ::
  "'m env \<Rightarrow> MoeGemmRunner \<Rightarrow> EpilogueTag \<Rightarrow> gemm_call \<Rightarrow> 'm state \<Rightarrow> 'm result" where
  "run_gemm env r tag a s =
    (let is_weight_only = (elem_type r \<noteq> weight_type r);
         only_simt_configs = (elem_type r = Float);
         candidate_configs = get_candidate_configs env (sm r) is_weight_only only_simt_configs;
         s0 = s\<lparr>occupancies := replicate (length candidate_configs) 0\<rparr>
     in case probe_candidates env r tag a candidate_configs 0 s0 of
          (Some e, s1) \<Rightarrow> (Some e, s1)
        | (None, s1) \<Rightarrow>
            (let workspace_bytes = 0;
                 split_k_limit = 1
             in case estimate_best_config_from_occupancies env candidate_configs (occupancies s1)
                       (total_rows a) (gemm_n a) (gemm_k a) (num_experts a)
                       split_k_limit workspace_bytes (multi_processor_count r) is_weight_only of
                  Inl e \<Rightarrow> (Some e, s1)
                | Inr chosen_config \<Rightarrow> dispatch_to_arch env r tag a chosen_config None s1))"

definition moe_gemm_bias_act ::
  "'m env \<Rightarrow> MoeGemmRunner \<Rightarrow> gemm_call \<Rightarrow> ActivationType \<Rightarrow> 'm state \<Rightarrow> 'm result" where
  "moe_gemm_bias_act env r a activation_type s =
    (case activation_type of
       Relu \<Rightarrow> run_gemm env r EpilogueOpBiasReLU a s
     | Gelu \<Rightarrow> run_gemm env r EpilogueOpBiasFtGelu a s
     | Silu \<Rightarrow> run_gemm env r EpilogueOpBiasSilu a s
     | Identity \<Rightarrow> run_gemm env r EpilogueOpBias a s
     | InvalidType \<Rightarrow> (Some InvalidActivationType, s)
     | OtherActivation \<Rightarrow> (Some InvalidActivationType, s))"

definition moe_gemm :: "'m env \<Rightarrow> MoeGemmRunner \<Rightarrow> gemm_call \<Rightarrow> 'm state \<Rightarrow> 'm result" where
  "moe_gemm env r a s = run_gemm env r EpilogueOpNoBias (a\<lparr>biases := 0\<rparr>) s"

subsection \<open>Auxiliary notions for the statements\<close>

text \<open>The three \<^verbatim>\<open>enable_if\<close> conditions of \<^verbatim>\<open>dispatch_moe_gemm_to_cutlass\<close>, as the
  precision path they select.\<close>

definition path_of :: "dtype \<Rightarrow> dtype \<Rightarrow> path" where
  "path_of T W = (if T = Float then SIMT else if T = W then SameType else MixedType)"

text \<open>The bands of \<^verbatim>\<open>dispatch_to_arch\<close>.\<close>

definition arch_of_sm :: "int \<Rightarrow> arch option" where
  "arch_of_sm v =
    (if 70 \<le> v \<and> v < 75 then Some Sm70
     else if 75 \<le> v \<and> v < 80 then Some Sm75
     else if 80 \<le> v \<and> v < 90 then Some Sm80
     else None)"

text \<open>The threadblock and warp shape each overload instantiates for a tile tag, or the
  error it throws.\<close>

fun tile_shapes :: "path \<Rightarrow> CutlassTileConfig \<Rightarrow> error + (GemmShape \<times> GemmShape)" where
  "tile_shapes p Undefined = Inl (GemmConfigUndefined p)"
| "tile_shapes p ChooseWithHeuristic = Inl (GemmConfigNotSetByHeuristic p)"
| "tile_shapes SameType CtaShape32x128x64_WarpShape32x32x64 = Inr ((32, 128, 64), (32, 32, 64))"
| "tile_shapes SameType CtaShape64x128x64_WarpShape32x64x64 = Inr ((64, 128, 64), (32, 64, 64))"
| "tile_shapes SameType CtaShape128x128x64_WarpShape64x32x64 = Inr ((128, 128, 64), (64, 32, 64))"
| "tile_shapes MixedType CtaShape32x128x64_WarpShape32x32x64 = Inr ((32, 128, 64), (32, 32, 64))"
| "tile_shapes MixedType CtaShape64x128x64_WarpShape64x32x64 = Inr ((64, 128, 64), (64, 32, 64))"
| "tile_shapes MixedType CtaShape128x128x64_WarpShape128x32x64 = Inr ((128, 128, 64), (128, 32, 64))"
| "tile_shapes SIMT CtaShape128x128x8_WarpShape64x64x8 = Inr ((128, 128, 8), (64, 64, 8))"
| "tile_shapes p _ = Inl (GemmConfigInvalid p)"

text \<open>The launcher instantiation the dispatch chain reaches for a configuration, or the
  error thrown on the way (the launcher's own split-k check included). That the chain
  computes exactly this is lemma \<open>dispatch_to_arch_resolve\<close> below.\<close>

definition resolve_kernel ::
  "MoeGemmRunner \<Rightarrow> EpilogueTag \<Rightarrow> CutlassGemmConfig \<Rightarrow> error + GemmKernel" where
  "resolve_kernel r tag c =
    (case arch_of_sm (sm r) of
       None \<Rightarrow> Inl ArchUnsupported
     | Some ar \<Rightarrow>
         (case tile_shapes (path_of (elem_type r) (weight_type r)) (tile_config c) of
            Inl e \<Rightarrow> Inl e
          | Inr (tb, warp) \<Rightarrow>
              if stages c \<noteq> 2 \<and> stages c \<noteq> 3 \<and> stages c \<noteq> 4
              then Inl (StagesNotSupported (stages c))
              else if stages c = 2 \<or> ar = Sm80 then
                (if split_k_style c \<noteq> NO_SPLIT_K then Inl SplitKNotSupported
                 else Inr \<lparr>k_T = elem_type r, k_WeightType = weight_type r, k_arch = ar,
                           k_EpilogueTag = tag, k_ThreadblockShape = tb, k_WarpShape = warp,
                           k_Stages = stages c\<rparr>)
              else Inl (StagesNotInstantiated ar (stages c))))"

text \<open>The kernels resolved for a candidate list up to the first error, and that error.\<close>

fun resolve_prefix ::
  "MoeGemmRunner \<Rightarrow> EpilogueTag \<Rightarrow> CutlassGemmConfig list \<Rightarrow> GemmKernel list \<times> error option" where
  "resolve_prefix r tag [] = ([], None)"
| "resolve_prefix r tag (c # cs) =
    (case resolve_kernel r tag c of
       Inl e \<Rightarrow> ([], Some e)
     | Inr k \<Rightarrow> (k # fst (resolve_prefix r tag cs), snd (resolve_prefix r tag cs)))"

text \<open>The effect of successful occupancy probes of the kernels \<open>ks\<close>, written to the
  slots \<open>ii\<close>, \<open>ii + 1\<close>, ...\<close>

fun probed :: "'m env \<Rightarrow> GemmKernel list \<Rightarrow> nat \<Rightarrow> 'm state \<Rightarrow> 'm state" where
  "probed env [] ii s = s"
| "probed env (k # ks) ii s =
    probed env ks (Suc ii)
      (s\<lparr>calls := calls s @ [ComputeOccupancy k],
         occupancies := (occupancies s)[ii := compute_occupancy_for_kernel env k]\<rparr>)"

text \<open>The value of the local variable \<^verbatim>\<open>chosen_config\<close> of \<^verbatim>\<open>run_gemm\<close>, when the probing
  loop and the selector return.\<close>

definition chosen_config ::
  "'m env \<Rightarrow> MoeGemmRunner \<Rightarrow> EpilogueTag \<Rightarrow> gemm_call \<Rightarrow> 'm state \<Rightarrow> CutlassGemmConfig option" where
  "chosen_config env r tag a s =
    (let is_weight_only = (elem_type r \<noteq> weight_type r);
         only_simt_configs = (elem_type r = Float);
         candidate_configs = get_candidate_configs env (sm r) is_weight_only only_simt_configs;
         s0 = s\<lparr>occupancies := replicate (length candidate_configs) 0\<rparr>
     in case probe_candidates env r tag a candidate_configs 0 s0 of
          (Some e, s1) \<Rightarrow> None
        | (None, s1) \<Rightarrow>
            (case estimate_best_config_from_occupancies env candidate_configs (occupancies s1)
                    (total_rows a) (gemm_n a) (gemm_k a) (num_experts a)
                    1 0 (multi_processor_count r) is_weight_only of
               Inl e \<Rightarrow> None
             | Inr c \<Rightarrow> Some c))"

text \<open>The candidate list of \<^verbatim>\<open>run_gemm\<close>, and the result of the selector on it when the
  probing loop has completed.\<close>

abbreviation catalog :: "'m env \<Rightarrow> MoeGemmRunner \<Rightarrow> CutlassGemmConfig list" where
  "catalog env r \<equiv>
    get_candidate_configs env (sm r) (elem_type r \<noteq> weight_type r) (elem_type r = Float)"

abbreviation selected ::
  "'m env \<Rightarrow> MoeGemmRunner \<Rightarrow> EpilogueTag \<Rightarrow> gemm_call \<Rightarrow> error + CutlassGemmConfig" where
  "selected env r tag a \<equiv>
    estimate_best_config_from_occupancies env (catalog env r)
      (map (compute_occupancy_for_kernel env) (fst (resolve_prefix r tag (catalog env r))))
      (total_rows a) (gemm_n a) (gemm_k a) (num_experts a) 1 0
      (multi_processor_count r) (elem_type r \<noteq> weight_type r)"

text \<open>The kernel launches recorded in a log.\<close>

fun launches :: "ext_call list \<Rightarrow> (GemmKernel \<times> Arguments) list" where
  "launches [] = []"
| "launches (Run k args st # cs) = (k, args) # launches cs"
| "launches (c # cs) = launches cs"

subsection \<open>Concrete inputs\<close>

definition example_config :: "CutlassTileConfig \<Rightarrow> int \<Rightarrow> CutlassGemmConfig" where
  "example_config t n =
    \<lparr>tile_config = t, split_k_style = NO_SPLIT_K, split_k_factor = 1, stages = n\<rparr>"

definition example_env :: "nat env" where
  "example_env =
    \<lparr>get_candidate_configs = (\<lambda>v w simt.
        [example_config CtaShape32x128x64_WarpShape32x32x64 2,
         example_config CtaShape64x128x64_WarpShape32x64x64 2]),
     config_score = (\<lambda>c occ m n k e budget. budget),
     compute_occupancy_for_kernel = (\<lambda>k. 1),
     maximum_active_blocks = (\<lambda>k. 3),
     gemm_can_implement = (\<lambda>k args. kSuccess),
     gemm_initialize = (\<lambda>k args. kSuccess),
     gemm_run = (\<lambda>k args st m. (kSuccess, Suc m)),
     device_multi_processor_count = 108\<rparr>"

definition example_runner :: "int \<Rightarrow> MoeGemmRunner" where
  "example_runner v = \<lparr>elem_type = Half, weight_type = Half, sm = v, multi_processor_count = 108\<rparr>"

definition example_call :: "int \<Rightarrow> gemm_call" where
  "example_call n =
    \<lparr>A = 1, B = 2, weight_scales = 0, biases = 3, C = 4,
     total_rows_before_expert = [128, 256, 384, 512, 640, 768, 896, 1024],
     total_rows = 1024, gemm_n = 4096, gemm_k = 1024, num_experts = n, stream = 7\<rparr>"

definition example_state :: "nat state" where
  "example_state = \<lparr>calls = [], occupancies = [], mem = 0\<rparr>"

definition example_kernel :: "arch \<Rightarrow> EpilogueTag \<Rightarrow> GemmShape \<Rightarrow> GemmShape \<Rightarrow> GemmKernel" where
  "example_kernel ar tag tb warp =
    \<lparr>k_T = Half, k_WeightType = Half, k_arch = ar, k_EpilogueTag = tag,
     k_ThreadblockShape = tb, k_WarpShape = warp, k_Stages = 2\<rparr>"

text \<open>A catalog whose second entry asks for three stages.\<close>

definition example_env_stages3 :: "nat env" where
  "example_env_stages3 =
    example_env\<lparr>get_candidate_configs := (\<lambda>v w simt.
      [example_config CtaShape32x128x64_WarpShape32x32x64 2,
       example_config CtaShape32x128x64_WarpShape32x32x64 3,
       example_config CtaShape64x128x64_WarpShape32x64x64 2])\<rparr>"

section \<open>The dispatch chain as a resolution step\<close>

text \<open>The chain \<^verbatim>\<open>dispatch_to_arch\<close>, \<^verbatim>\<open>dispatch_moe_gemm_to_cutlass\<close>, \<^verbatim>\<open>dispatch_gemm_config\<close>,
  \<^verbatim>\<open>dispatch_stages\<close> either throws with the state untouched or calls the launcher for
  one instantiation.\<close>

lemma dispatch_gemm_config_resolve:
  "dispatch_gemm_config env T W ar tag tb warp a c mp occ s =
    (if stages c \<noteq> 2 \<and> stages c \<noteq> 3 \<and> stages c \<noteq> 4 then (Some (StagesNotSupported (stages c)), s)
     else if stages c = 2 \<or> ar = Sm80 then
       generic_moe_gemm_kernelLauncher env
         \<lparr>k_T = T, k_WeightType = W, k_arch = ar, k_EpilogueTag = tag,
          k_ThreadblockShape = tb, k_WarpShape = warp, k_Stages = stages c\<rparr> a c mp occ s
     else (Some (StagesNotInstantiated ar (stages c)), s))"
  by (auto simp: dispatch_gemm_config_def dispatch_stages_def)

lemma dispatch_moe_gemm_to_cutlass_resolve:
  "dispatch_moe_gemm_to_cutlass env T W ar tag a c smv mp occ s =
    (case tile_shapes (path_of T W) (tile_config c) of
       Inl e \<Rightarrow> (Some e, s)
     | Inr (tb, warp) \<Rightarrow> dispatch_gemm_config env T W ar tag tb warp a c mp occ s)"
  by (cases "tile_config c")
     (simp_all add: dispatch_moe_gemm_to_cutlass_def dispatch_moe_gemm_to_cutlass_same_type_def
        dispatch_moe_gemm_to_cutlass_mixed_type_def dispatch_moe_gemm_to_cutlass_simt_def path_of_def)

lemma launcher_split_k:
  "split_k_style c \<noteq> NO_SPLIT_K \<Longrightarrow>
     generic_moe_gemm_kernelLauncher env k a c mp occ s = (Some SplitKNotSupported, s)"
  by (simp add: generic_moe_gemm_kernelLauncher_def)

lemma launcher_probe:
  "split_k_style c = NO_SPLIT_K \<Longrightarrow>
     generic_moe_gemm_kernelLauncher env k a c mp (Some p) s =
       (None, s\<lparr>calls := calls s @ [ComputeOccupancy k],
                occupancies := (occupancies s)[p := compute_occupancy_for_kernel env k]\<rparr>)"
  by (simp add: generic_moe_gemm_kernelLauncher_def log_call_def)

lemma dispatch_to_arch_resolve:
  "dispatch_to_arch env r tag a c occ s =
    (case resolve_kernel r tag c of
       Inl e \<Rightarrow> (Some e, s)
     | Inr k \<Rightarrow> generic_moe_gemm_kernelLauncher env k a c (multi_processor_count r) occ s)"
  unfolding dispatch_to_arch_def resolve_kernel_def arch_of_sm_def
  by (simp add: dispatch_moe_gemm_to_cutlass_resolve dispatch_gemm_config_resolve launcher_split_k
        split: sum.splits prod.splits)

lemma resolve_kernel_no_split_k:
  "resolve_kernel r tag c = Inr k \<Longrightarrow> split_k_style c = NO_SPLIT_K"
  by (auto simp: resolve_kernel_def split: option.splits sum.splits prod.splits if_splits)

lemma dispatch_to_arch_probe:
  "dispatch_to_arch env r tag a c (Some p) s =
    (case resolve_kernel r tag c of
       Inl e \<Rightarrow> (Some e, s)
     | Inr k \<Rightarrow>
         (None, s\<lparr>calls := calls s @ [ComputeOccupancy k],
                  occupancies := (occupancies s)[p := compute_occupancy_for_kernel env k]\<rparr>))"
  by (simp add: dispatch_to_arch_resolve launcher_probe resolve_kernel_no_split_k split: sum.splits)

lemma probe_candidates_resolve:
  "probe_candidates env r tag a cs ii s =
    (snd (resolve_prefix r tag cs), probed env (fst (resolve_prefix r tag cs)) ii s)"
  by (induction cs arbitrary: ii s) (simp_all add: dispatch_to_arch_probe split: sum.splits)

lemma probed_calls: "calls (probed env ks ii s) = calls s @ map ComputeOccupancy ks"
  by (induction ks arbitrary: ii s) simp_all

lemma probed_mem: "mem (probed env ks ii s) = mem s"
  by (induction ks arbitrary: ii s) simp_all

lemma probed_occupancies:
  "ii + length ks \<le> length (occupancies s) \<Longrightarrow>
     occupancies (probed env ks ii s) =
       take ii (occupancies s) @ map (compute_occupancy_for_kernel env) ks
         @ drop (ii + length ks) (occupancies s)"
proof (induction ks arbitrary: ii s)
  case Nil
  then show ?case by simp
next
  case (Cons k ks)
  then show ?case
    by (simp add: take_Suc_conv_app_nth)
qed

lemma resolve_prefix_length: "length (fst (resolve_prefix r tag cs)) \<le> length cs"
  by (induction cs) (simp_all split: sum.splits)

lemma resolve_prefix_complete:
  "snd (resolve_prefix r tag cs) = None \<Longrightarrow>
     map (resolve_kernel r tag) cs = map Inr (fst (resolve_prefix r tag cs))"
  by (induction cs) (simp_all split: sum.splits)

lemma probe_candidates_append:
  "probe_candidates env r tag a (xs @ ys) ii s =
    (case probe_candidates env r tag a xs ii s of
       (Some e, s') \<Rightarrow> (Some e, s')
     | (None, s') \<Rightarrow> probe_candidates env r tag a ys (ii + length xs) s')"
  by (induction xs arbitrary: ii s) (simp_all split: prod.splits option.splits)

lemma launcher_launch_ok:
  assumes "generic_moe_gemm_kernelLauncher env k a c mp None s = (None, s')"
  shows "split_k_style c = NO_SPLIT_K \<and> min 2 (maximum_active_blocks env k) \<noteq> 0 \<and>
     s' = s\<lparr>calls := calls s @
              [MaximumActiveBlocks k,
               CanImplement k (grouped_arguments a (wrap_int32 (mp * min 2 (maximum_active_blocks env k)))),
               Initialize k (grouped_arguments a (wrap_int32 (mp * min 2 (maximum_active_blocks env k)))),
               Run k (grouped_arguments a (wrap_int32 (mp * min 2 (maximum_active_blocks env k)))) (stream a)],
            mem := snd (gemm_run env k (grouped_arguments a (wrap_int32 (mp * min 2 (maximum_active_blocks env k))))
                      (stream a) (mem s))\<rparr>"
  using assms
  by (auto simp: generic_moe_gemm_kernelLauncher_def log_call_def Let_def
        split: if_splits prod.splits)

lemma resolve_prefix_all_length:
  "snd (resolve_prefix r tag cs) = None \<Longrightarrow> length (fst (resolve_prefix r tag cs)) = length cs"
  by (induction cs) (simp_all split: sum.splits)

lemma launches_append: "launches (xs @ ys) = launches xs @ launches ys"
  by (induction xs rule: launches.induct) simp_all

lemma launches_probes: "launches (map ComputeOccupancy ks) = []"
  by (induction ks) simp_all

lemma probed_fresh_occupancies:
  "length ks = n \<Longrightarrow>
     occupancies (probed env ks 0 (s\<lparr>occupancies := replicate n 0\<rparr>)) =
       map (compute_occupancy_for_kernel env) ks"
  by (simp add: probed_occupancies)

lemma run_gemm_resolve:
  "run_gemm env r tag a s =
    (case snd (resolve_prefix r tag (catalog env r)) of
       Some e \<Rightarrow>
         (Some e,
          probed env (fst (resolve_prefix r tag (catalog env r))) 0
            (s\<lparr>occupancies := replicate (length (catalog env r)) 0\<rparr>))
     | None \<Rightarrow>
         (case selected env r tag a of
            Inl e \<Rightarrow>
              (Some e,
               probed env (fst (resolve_prefix r tag (catalog env r))) 0
                 (s\<lparr>occupancies := replicate (length (catalog env r)) 0\<rparr>))
          | Inr c \<Rightarrow>
              dispatch_to_arch env r tag a c None
                (probed env (fst (resolve_prefix r tag (catalog env r))) 0
                   (s\<lparr>occupancies := replicate (length (catalog env r)) 0\<rparr>))))"
  by (simp add: run_gemm_def Let_def probe_candidates_resolve probed_fresh_occupancies
        resolve_prefix_all_length split: option.splits sum.splits)

lemma chosen_config_resolve:
  "chosen_config env r tag a s =
    (case snd (resolve_prefix r tag (catalog env r)) of
       Some e \<Rightarrow> None
     | None \<Rightarrow> (case selected env r tag a of Inl e \<Rightarrow> None | Inr c \<Rightarrow> Some c))"
  by (simp add: chosen_config_def Let_def probe_candidates_resolve probed_fresh_occupancies
        resolve_prefix_all_length split: option.splits sum.splits)

lemma resolve_kernel_stages:
  "resolve_kernel r tag c = Inr k \<Longrightarrow>
     stages c = 2 \<or> ((stages c = 3 \<or> stages c = 4) \<and> 80 \<le> sm r \<and> sm r < 90)"
  by (auto simp: resolve_kernel_def arch_of_sm_def split: option.splits sum.splits prod.splits if_splits)

lemma resolve_kernel_tile:
  "resolve_kernel r tag c = Inr k \<Longrightarrow>
     tile_config c \<noteq> Undefined \<and> tile_config c \<noteq> ChooseWithHeuristic"
  by (auto simp: resolve_kernel_def split: option.splits sum.splits prod.splits if_splits)

lemma resolve_kernel_fields:
  "resolve_kernel r tag c = Inr k \<Longrightarrow>
     k_Stages k = stages c \<and> k_EpilogueTag k = tag \<and> k_T k = elem_type r \<and>
     k_WeightType k = weight_type r \<and> arch_of_sm (sm r) = Some (k_arch k) \<and>
     tile_shapes (path_of (elem_type r) (weight_type r)) (tile_config c) =
       Inr (k_ThreadblockShape k, k_WarpShape k)"
  by (auto simp: resolve_kernel_def split: option.splits sum.splits prod.splits if_splits)

lemma dispatch_to_arch_launch_ok:
  assumes "dispatch_to_arch env r tag a c None s = (None, s')"
  shows "\<exists>k. resolve_kernel r tag c = Inr k \<and> min 2 (maximum_active_blocks env k) \<noteq> 0 \<and>
     s' = s\<lparr>calls := calls s @
              [MaximumActiveBlocks k,
               CanImplement k (grouped_arguments a
                 (wrap_int32 (multi_processor_count r * min 2 (maximum_active_blocks env k)))),
               Initialize k (grouped_arguments a
                 (wrap_int32 (multi_processor_count r * min 2 (maximum_active_blocks env k)))),
               Run k (grouped_arguments a
                 (wrap_int32 (multi_processor_count r * min 2 (maximum_active_blocks env k)))) (stream a)],
            mem := snd (gemm_run env k (grouped_arguments a
                 (wrap_int32 (multi_processor_count r * min 2 (maximum_active_blocks env k))))
                      (stream a) (mem s))\<rparr>"
proof (cases "resolve_kernel r tag c")
  case (Inl e)
  with assms show ?thesis by (simp add: dispatch_to_arch_resolve)
next
  case (Inr k)
  with assms have "generic_moe_gemm_kernelLauncher env k a c (multi_processor_count r) None s = (None, s')"
    by (simp add: dispatch_to_arch_resolve)
  from launcher_launch_ok [OF this] Inr show ?thesis by blast
qed

subsection \<open>The wrapped product and the selector\<close>


lemma best_scored_member:
  "best_scored sc xs = Some (c, occ) \<Longrightarrow> (c, occ) \<in> set xs \<and> occ \<noteq> 0"
  by (induction sc xs rule: best_scored.induct)
     (auto split: if_splits option.splits prod.splits)


lemma estimate_member:
  assumes "estimate_best_config_from_occupancies env cands occs m n k e skl wb mp w = Inr c"
  shows "\<exists>i. i < length cands \<and> i < length occs \<and> c = cands ! i \<and> occs ! i \<noteq> 0"
proof -
  from assms obtain occ where
    "best_scored (\<lambda>c occ. config_score env c occ m n k e (mp * occ)) (zip cands occs) = Some (c, occ)"
    by (auto simp: estimate_best_config_from_occupancies_def split: option.splits)
  then have "(c, occ) \<in> set (zip cands occs)" and "occ \<noteq> 0"
    using best_scored_member by blast+
  then show ?thesis
    by (auto simp: in_set_zip)
qed




subsection \<open>The calls of a run\<close>

lemma resolve_prefix_nth:
  "snd (resolve_prefix r tag cs) = None \<Longrightarrow> i < length cs \<Longrightarrow>
     resolve_kernel r tag (cs ! i) = Inr (fst (resolve_prefix r tag cs) ! i)"
proof (induction cs arbitrary: i)
  case Nil
  then show ?case by simp
next
  case (Cons c cs)
  then show ?case
    by (cases i) (auto split: sum.splits)
qed

lemma selected_resolves:
  assumes "snd (resolve_prefix r tag (catalog env r)) = None"
    and "selected env r tag a = Inr c"
  shows "\<exists>i. i < length (catalog env r) \<and> c = catalog env r ! i \<and>
     resolve_kernel r tag c = Inr (fst (resolve_prefix r tag (catalog env r)) ! i) \<and>
     compute_occupancy_for_kernel env (fst (resolve_prefix r tag (catalog env r)) ! i) \<noteq> 0"
proof -
  from estimate_member [OF assms(2)] obtain i where
    i: "i < length (catalog env r)" "i < length (fst (resolve_prefix r tag (catalog env r)))"
    and c: "c = catalog env r ! i"
    and occ: "map (compute_occupancy_for_kernel env) (fst (resolve_prefix r tag (catalog env r))) ! i \<noteq> 0"
    by auto
  from resolve_prefix_nth [OF assms(1) i(1)] i c occ show ?thesis
    by auto
qed

lemma run_gemm_ok:
  assumes "run_gemm env r tag a s = (None, s')"
  shows "\<exists>c i k. snd (resolve_prefix r tag (catalog env r)) = None \<and>
     selected env r tag a = Inr c \<and>
     i < length (catalog env r) \<and> c = catalog env r ! i \<and>
     k = fst (resolve_prefix r tag (catalog env r)) ! i \<and>
     resolve_kernel r tag c = Inr k \<and>
     compute_occupancy_for_kernel env k \<noteq> 0 \<and>
     min 2 (maximum_active_blocks env k) \<noteq> 0 \<and>
     calls s' = calls s @
       map ComputeOccupancy (fst (resolve_prefix r tag (catalog env r))) @
       [MaximumActiveBlocks k,
        CanImplement k (grouped_arguments a
          (wrap_int32 (multi_processor_count r * min 2 (maximum_active_blocks env k)))),
        Initialize k (grouped_arguments a
          (wrap_int32 (multi_processor_count r * min 2 (maximum_active_blocks env k)))),
        Run k (grouped_arguments a
          (wrap_int32 (multi_processor_count r * min 2 (maximum_active_blocks env k)))) (stream a)] \<and>
     occupancies s' =
       map (compute_occupancy_for_kernel env) (fst (resolve_prefix r tag (catalog env r))) \<and>
     mem s' = snd (gemm_run env k (grouped_arguments a
          (wrap_int32 (multi_processor_count r * min 2 (maximum_active_blocks env k))))
          (stream a) (mem s))"
proof -
  let ?ks = "fst (resolve_prefix r tag (catalog env r))"
  let ?s1 = "probed env ?ks 0 (s\<lparr>occupancies := replicate (length (catalog env r)) 0\<rparr>)"
  have none: "snd (resolve_prefix r tag (catalog env r)) = None"
  proof (cases "snd (resolve_prefix r tag (catalog env r))")
    case None
    then show ?thesis .
  next
    case (Some e)
    with assms show ?thesis by (simp add: run_gemm_resolve)
  qed
  obtain c where c: "selected env r tag a = Inr c"
  proof (cases "selected env r tag a")
    case (Inl e)
    with assms none show ?thesis by (simp add: run_gemm_resolve)
  next
    case (Inr c)
    then show ?thesis by (rule that)
  qed
  with assms none have "dispatch_to_arch env r tag a c None ?s1 = (None, s')"
    by (simp add: run_gemm_resolve)
  from dispatch_to_arch_launch_ok [OF this] obtain k where
    k: "resolve_kernel r tag c = Inr k" "min 2 (maximum_active_blocks env k) \<noteq> 0" and
    s': "s' = ?s1
      \<lparr>calls := calls ?s1 @
          [MaximumActiveBlocks k,
           CanImplement k (grouped_arguments a
             (wrap_int32 (multi_processor_count r * min 2 (maximum_active_blocks env k)))),
           Initialize k (grouped_arguments a
             (wrap_int32 (multi_processor_count r * min 2 (maximum_active_blocks env k)))),
           Run k (grouped_arguments a
             (wrap_int32 (multi_processor_count r * min 2 (maximum_active_blocks env k)))) (stream a)],
        mem := snd (gemm_run env k (grouped_arguments a
             (wrap_int32 (multi_processor_count r * min 2 (maximum_active_blocks env k))))
                  (stream a) (mem ?s1))\<rparr>"
    by blast
  from selected_resolves [OF none c] k(1) obtain i where
    i: "i < length (catalog env r)" "c = catalog env r ! i" "k = ?ks ! i"
      "compute_occupancy_for_kernel env k \<noteq> 0"
    by auto
  have len: "length ?ks = length (catalog env r)"
    using none by (rule resolve_prefix_all_length)
  have "calls s' = calls s @ map ComputeOccupancy ?ks @
      [MaximumActiveBlocks k,
       CanImplement k (grouped_arguments a
         (wrap_int32 (multi_processor_count r * min 2 (maximum_active_blocks env k)))),
       Initialize k (grouped_arguments a
         (wrap_int32 (multi_processor_count r * min 2 (maximum_active_blocks env k)))),
       Run k (grouped_arguments a
         (wrap_int32 (multi_processor_count r * min 2 (maximum_active_blocks env k)))) (stream a)]"
    by (simp add: s' probed_calls)
  moreover have "occupancies s' = map (compute_occupancy_for_kernel env) ?ks"
    by (simp add: s' probed_fresh_occupancies [OF len])
  moreover have "mem s' = snd (gemm_run env k (grouped_arguments a
          (wrap_int32 (multi_processor_count r * min 2 (maximum_active_blocks env k))))
          (stream a) (mem s))"
    by (simp add: s' probed_mem)
  ultimately show ?thesis using none c k i by blast
qed

lemma example_selected:
  "estimate_best_config_from_occupancies example_env
      [example_config CtaShape32x128x64_WarpShape32x32x64 2,
       example_config CtaShape64x128x64_WarpShape32x64x64 2] [1, 1] m n k e skl wb mp w =
     Inr (example_config CtaShape32x128x64_WarpShape32x32x64 2)"
  by (simp add: estimate_best_config_from_occupancies_def example_env_def)

lemma example_run_gemm:
  "run_gemm example_env (example_runner 80) tag a s =
     (None,
      s\<lparr>calls := calls s @
         [ComputeOccupancy (example_kernel Sm80 tag (32, 128, 64) (32, 32, 64)),
          ComputeOccupancy (example_kernel Sm80 tag (64, 128, 64) (32, 64, 64)),
          MaximumActiveBlocks (example_kernel Sm80 tag (32, 128, 64) (32, 32, 64)),
          CanImplement (example_kernel Sm80 tag (32, 128, 64) (32, 32, 64)) (grouped_arguments a 216),
          Initialize (example_kernel Sm80 tag (32, 128, 64) (32, 32, 64)) (grouped_arguments a 216),
          Run (example_kernel Sm80 tag (32, 128, 64) (32, 32, 64)) (grouped_arguments a 216)
            (stream a)],
        occupancies := [1, 1], mem := Suc (mem s)\<rparr>)"
proof -
  have cands: "catalog example_env (example_runner 80) =
      [example_config CtaShape32x128x64_WarpShape32x32x64 2,
       example_config CtaShape64x128x64_WarpShape32x64x64 2]"
    by (simp add: example_env_def)
  have r1: "resolve_kernel (example_runner 80) tag (example_config CtaShape32x128x64_WarpShape32x32x64 2) =
      Inr (example_kernel Sm80 tag (32, 128, 64) (32, 32, 64))"
    and r2: "resolve_kernel (example_runner 80) tag (example_config CtaShape64x128x64_WarpShape32x64x64 2) =
      Inr (example_kernel Sm80 tag (64, 128, 64) (32, 64, 64))"
    by (simp_all add: resolve_kernel_def arch_of_sm_def path_of_def example_runner_def
          example_config_def example_kernel_def)
  have vals: "\<And>k. compute_occupancy_for_kernel example_env k = 1"
    "multi_processor_count (example_runner 80) = 108"
    by (simp_all add: example_env_def example_runner_def)
  have launch: "\<And>t. generic_moe_gemm_kernelLauncher example_env
      (example_kernel Sm80 tag (32, 128, 64) (32, 32, 64)) a
      (example_config CtaShape32x128x64_WarpShape32x32x64 2) 108 None t =
      (None, t\<lparr>calls := calls t @
         [MaximumActiveBlocks (example_kernel Sm80 tag (32, 128, 64) (32, 32, 64)),
          CanImplement (example_kernel Sm80 tag (32, 128, 64) (32, 32, 64)) (grouped_arguments a 216),
          Initialize (example_kernel Sm80 tag (32, 128, 64) (32, 32, 64)) (grouped_arguments a 216),
          Run (example_kernel Sm80 tag (32, 128, 64) (32, 32, 64)) (grouped_arguments a 216)
            (stream a)],
        mem := Suc (mem t)\<rparr>)"
    by (simp add: generic_moe_gemm_kernelLauncher_def log_call_def Let_def wrap_int32_def
          example_env_def example_config_def)
  show ?thesis
    by (simp add: run_gemm_resolve cands r1 r2 vals example_selected dispatch_to_arch_resolve launch)
qed




lemma example_run_gemm_unsupported:
  "run_gemm example_env (example_runner 60) tag a s =
     (Some ArchUnsupported, s\<lparr>occupancies := [0, 0]\<rparr>)"
  by (simp add: run_gemm_def dispatch_to_arch_def example_env_def example_runner_def
        numeral_2_eq_2)



section \<open>Properties of the dispatch and the launcher\<close>

text \<open>
  Claim C2. \<^verbatim>\<open>dispatch_to_arch\<close> routes by the stored compute capability: \<open>sm\<close> in
  [70, 75) takes the Sm70 path, [75, 80) the Sm75 path, [80, 90) the Sm80 path. For every
  other \<open>sm\<close> the call throws the unsupported-architecture error with the state as it was:
  nothing is queried, no other path is taken and no kernel is launched.
\<close>

theorem dispatch_to_arch_routes_by_sm:
  "(70 \<le> sm r \<and> sm r < 75 \<longrightarrow>
      dispatch_to_arch env r tag a c occ s =
        dispatch_moe_gemm_to_cutlass env (elem_type r) (weight_type r) Sm70 tag a c
          (sm r) (multi_processor_count r) occ s) \<and>
   (75 \<le> sm r \<and> sm r < 80 \<longrightarrow>
      dispatch_to_arch env r tag a c occ s =
        dispatch_moe_gemm_to_cutlass env (elem_type r) (weight_type r) Sm75 tag a c
          (sm r) (multi_processor_count r) occ s) \<and>
   (80 \<le> sm r \<and> sm r < 90 \<longrightarrow>
      dispatch_to_arch env r tag a c occ s =
        dispatch_moe_gemm_to_cutlass env (elem_type r) (weight_type r) Sm80 tag a c
          (sm r) (multi_processor_count r) occ s) \<and>
   (sm r < 70 \<or> 90 \<le> sm r \<longrightarrow>
      dispatch_to_arch env r tag a c occ s = (Some ArchUnsupported, s))"
  by (simp add: dispatch_to_arch_def)

theorem dispatch_to_arch_routes_by_sm_witness:
  "dispatch_to_arch example_env (example_runner 72) EpilogueOpBias (example_call 8)
      (example_config CtaShape32x128x64_WarpShape32x32x64 2) None example_state =
     dispatch_moe_gemm_to_cutlass example_env Half Half Sm70 EpilogueOpBias (example_call 8)
      (example_config CtaShape32x128x64_WarpShape32x32x64 2) 72 108 None example_state \<and>
   dispatch_to_arch example_env (example_runner 75) EpilogueOpBias (example_call 8)
      (example_config CtaShape32x128x64_WarpShape32x32x64 2) None example_state =
     dispatch_moe_gemm_to_cutlass example_env Half Half Sm75 EpilogueOpBias (example_call 8)
      (example_config CtaShape32x128x64_WarpShape32x32x64 2) 75 108 None example_state \<and>
   dispatch_to_arch example_env (example_runner 89) EpilogueOpBias (example_call 8)
      (example_config CtaShape32x128x64_WarpShape32x32x64 2) None example_state =
     dispatch_moe_gemm_to_cutlass example_env Half Half Sm80 EpilogueOpBias (example_call 8)
      (example_config CtaShape32x128x64_WarpShape32x32x64 2) 89 108 None example_state \<and>
   dispatch_to_arch example_env (example_runner 90) EpilogueOpBias (example_call 8)
      (example_config CtaShape32x128x64_WarpShape32x32x64 2) None example_state =
     (Some ArchUnsupported, example_state) \<and>
   dispatch_to_arch example_env (example_runner 61) EpilogueOpBias (example_call 8)
      (example_config CtaShape32x128x64_WarpShape32x32x64 2) None example_state =
     (Some ArchUnsupported, example_state)"
  using dispatch_to_arch_routes_by_sm [where r = "example_runner 72" and env = example_env
      and tag = EpilogueOpBias and a = "example_call 8"
      and c = "example_config CtaShape32x128x64_WarpShape32x32x64 2" and occ = None
      and s = example_state]
    dispatch_to_arch_routes_by_sm [where r = "example_runner 75" and env = example_env
      and tag = EpilogueOpBias and a = "example_call 8"
      and c = "example_config CtaShape32x128x64_WarpShape32x32x64 2" and occ = None
      and s = example_state]
    dispatch_to_arch_routes_by_sm [where r = "example_runner 89" and env = example_env
      and tag = EpilogueOpBias and a = "example_call 8"
      and c = "example_config CtaShape32x128x64_WarpShape32x32x64 2" and occ = None
      and s = example_state]
    dispatch_to_arch_routes_by_sm [where r = "example_runner 90" and env = example_env
      and tag = EpilogueOpBias and a = "example_call 8"
      and c = "example_config CtaShape32x128x64_WarpShape32x32x64 2" and occ = None
      and s = example_state]
    dispatch_to_arch_routes_by_sm [where r = "example_runner 61" and env = example_env
      and tag = EpilogueOpBias and a = "example_call 8"
      and c = "example_config CtaShape32x128x64_WarpShape32x32x64 2" and occ = None
      and s = example_state]
  by (simp add: example_runner_def)

text \<open>
  Claim C3. On every architecture a stage count other than 2, 3 or 4 makes
  \<^verbatim>\<open>dispatch_gemm_config\<close> throw, and 3 or 4 stages on Sm70 or Sm75 reach the primary
  template of \<^verbatim>\<open>dispatch_stages\<close>, which throws. In both cases the state is untouched.
  The third part is the same fact seen from \<^verbatim>\<open>dispatch_to_arch\<close>, for every runner and
  every configuration: the dispatch ends in an error and leaves the state as it was.
\<close>

theorem stages_dispatch_errors:
  "(stages c \<noteq> 2 \<and> stages c \<noteq> 3 \<and> stages c \<noteq> 4 \<longrightarrow>
      dispatch_gemm_config env T W ar tag tb warp a c mp occ s =
        (Some (StagesNotSupported (stages c)), s)) \<and>
   ((stages c = 3 \<or> stages c = 4) \<and> (ar = Sm70 \<or> ar = Sm75) \<longrightarrow>
      dispatch_gemm_config env T W ar tag tb warp a c mp occ s =
        (Some (StagesNotInstantiated ar (stages c)), s)) \<and>
   ((stages c \<noteq> 2 \<and> stages c \<noteq> 3 \<and> stages c \<noteq> 4) \<or>
    ((stages c = 3 \<or> stages c = 4) \<and> sm r < 80) \<longrightarrow>
      (\<exists>e. dispatch_to_arch env r tag a c occ s = (Some e, s)))"
proof (intro conjI impI)
  assume "stages c \<noteq> 2 \<and> stages c \<noteq> 3 \<and> stages c \<noteq> 4"
  then show "dispatch_gemm_config env T W ar tag tb warp a c mp occ s =
      (Some (StagesNotSupported (stages c)), s)"
    by (simp add: dispatch_gemm_config_resolve)
next
  assume "(stages c = 3 \<or> stages c = 4) \<and> (ar = Sm70 \<or> ar = Sm75)"
  then show "dispatch_gemm_config env T W ar tag tb warp a c mp occ s =
      (Some (StagesNotInstantiated ar (stages c)), s)"
    by (auto simp: dispatch_gemm_config_resolve)
next
  assume h: "(stages c \<noteq> 2 \<and> stages c \<noteq> 3 \<and> stages c \<noteq> 4) \<or>
    ((stages c = 3 \<or> stages c = 4) \<and> sm r < 80)"
  show "\<exists>e. dispatch_to_arch env r tag a c occ s = (Some e, s)"
  proof (cases "resolve_kernel r tag c")
    case (Inl e)
    then show ?thesis by (simp add: dispatch_to_arch_resolve)
  next
    case (Inr k)
    from resolve_kernel_stages [OF this] h show ?thesis by auto
  qed
qed

theorem stages_dispatch_errors_witness:
  "dispatch_gemm_config example_env Half Half Sm80 EpilogueOpBias (32, 128, 64) (32, 32, 64)
      (example_call 8) (example_config CtaShape32x128x64_WarpShape32x32x64 5) 108 None example_state =
     (Some (StagesNotSupported 5), example_state) \<and>
   dispatch_gemm_config example_env Half Half Sm75 EpilogueOpBias (32, 128, 64) (32, 32, 64)
      (example_call 8) (example_config CtaShape32x128x64_WarpShape32x32x64 3) 108 None example_state =
     (Some (StagesNotInstantiated Sm75 3), example_state) \<and>
   (\<exists>e. dispatch_to_arch example_env (example_runner 70) EpilogueOpBias (example_call 8)
      (example_config CtaShape32x128x64_WarpShape32x32x64 4) None example_state =
     (Some e, example_state))"
  using stages_dispatch_errors [where c = "example_config CtaShape32x128x64_WarpShape32x32x64 5"
      and env = example_env and T = Half and W = Half and ar = Sm80 and tag = EpilogueOpBias
      and tb = "(32, 128, 64)" and warp = "(32, 32, 64)" and a = "example_call 8" and mp = 108
      and occ = None and s = example_state and r = "example_runner 70"]
    stages_dispatch_errors [where c = "example_config CtaShape32x128x64_WarpShape32x32x64 3"
      and env = example_env and T = Half and W = Half and ar = Sm75 and tag = EpilogueOpBias
      and tb = "(32, 128, 64)" and warp = "(32, 32, 64)" and a = "example_call 8" and mp = 108
      and occ = None and s = example_state and r = "example_runner 70"]
    stages_dispatch_errors [where c = "example_config CtaShape32x128x64_WarpShape32x32x64 4"
      and env = example_env and T = Half and W = Half and ar = Sm70 and tag = EpilogueOpBias
      and tb = "(32, 128, 64)" and warp = "(32, 32, 64)" and a = "example_call 8" and mp = 108
      and occ = None and s = example_state and r = "example_runner 70"]
  by (simp add: example_config_def example_runner_def)

text \<open>
  Claim C4. \<^verbatim>\<open>moe_gemm_bias_act\<close> runs the GEMM with the bias epilogue of the activation
  tag (Identity, Relu, Gelu, Silu), and for the invalid tag it throws before anything is
  dispatched: the state is returned as it was, and the Identity epilogue is not used.
\<close>

theorem moe_gemm_bias_act_epilogue:
  "moe_gemm_bias_act env r a Identity s = run_gemm env r EpilogueOpBias a s \<and>
   moe_gemm_bias_act env r a Relu s = run_gemm env r EpilogueOpBiasReLU a s \<and>
   moe_gemm_bias_act env r a Gelu s = run_gemm env r EpilogueOpBiasFtGelu a s \<and>
   moe_gemm_bias_act env r a Silu s = run_gemm env r EpilogueOpBiasSilu a s \<and>
   moe_gemm_bias_act env r a InvalidType s = (Some InvalidActivationType, s)"
  by (simp add: moe_gemm_bias_act_def)

theorem moe_gemm_bias_act_epilogue_witness:
  "moe_gemm_bias_act example_env (example_runner 80) (example_call 8) InvalidType example_state =
     (Some InvalidActivationType, example_state) \<and>
   moe_gemm_bias_act example_env (example_runner 80) (example_call 8) Relu example_state =
     (None,
      \<lparr>calls =
         [ComputeOccupancy (example_kernel Sm80 EpilogueOpBiasReLU (32, 128, 64) (32, 32, 64)),
          ComputeOccupancy (example_kernel Sm80 EpilogueOpBiasReLU (64, 128, 64) (32, 64, 64)),
          MaximumActiveBlocks (example_kernel Sm80 EpilogueOpBiasReLU (32, 128, 64) (32, 32, 64)),
          CanImplement (example_kernel Sm80 EpilogueOpBiasReLU (32, 128, 64) (32, 32, 64))
            (grouped_arguments (example_call 8) 216),
          Initialize (example_kernel Sm80 EpilogueOpBiasReLU (32, 128, 64) (32, 32, 64))
            (grouped_arguments (example_call 8) 216),
          Run (example_kernel Sm80 EpilogueOpBiasReLU (32, 128, 64) (32, 32, 64))
            (grouped_arguments (example_call 8) 216) 7],
       occupancies = [1, 1], mem = 1\<rparr>)"
  using moe_gemm_bias_act_epilogue [of example_env "example_runner 80" "example_call 8" example_state]
  by (simp add: example_run_gemm example_state_def example_call_def)

text \<open>
  Claim C5. A configuration that asks for split-k makes the launcher throw at once; a
  configuration whose tile tag is \<open>Undefined\<close> or \<open>ChooseWithHeuristic\<close> makes every
  overload of \<^verbatim>\<open>dispatch_moe_gemm_to_cutlass\<close> throw. Seen from \<^verbatim>\<open>dispatch_to_arch\<close>, any of
  the three conditions ends the dispatch in an error with the state untouched, so without
  a device query and without a launch.
\<close>

theorem split_k_and_placeholder_tiles_rejected:
  "(split_k_style c \<noteq> NO_SPLIT_K \<longrightarrow>
      generic_moe_gemm_kernelLauncher env k a c mp occ s = (Some SplitKNotSupported, s)) \<and>
   (tile_config c = Undefined \<longrightarrow>
      dispatch_moe_gemm_to_cutlass env T W ar tag a c smv mp occ s =
        (Some (GemmConfigUndefined (path_of T W)), s)) \<and>
   (tile_config c = ChooseWithHeuristic \<longrightarrow>
      dispatch_moe_gemm_to_cutlass env T W ar tag a c smv mp occ s =
        (Some (GemmConfigNotSetByHeuristic (path_of T W)), s)) \<and>
   (split_k_style c \<noteq> NO_SPLIT_K \<or> tile_config c = Undefined \<or>
    tile_config c = ChooseWithHeuristic \<longrightarrow>
      (\<exists>e. dispatch_to_arch env r tag a c occ s = (Some e, s)))"
proof (intro conjI impI)
  assume "split_k_style c \<noteq> NO_SPLIT_K"
  then show "generic_moe_gemm_kernelLauncher env k a c mp occ s = (Some SplitKNotSupported, s)"
    by (rule launcher_split_k)
next
  assume "tile_config c = Undefined"
  then show "dispatch_moe_gemm_to_cutlass env T W ar tag a c smv mp occ s =
      (Some (GemmConfigUndefined (path_of T W)), s)"
    by (simp add: dispatch_moe_gemm_to_cutlass_resolve)
next
  assume "tile_config c = ChooseWithHeuristic"
  then show "dispatch_moe_gemm_to_cutlass env T W ar tag a c smv mp occ s =
      (Some (GemmConfigNotSetByHeuristic (path_of T W)), s)"
    by (simp add: dispatch_moe_gemm_to_cutlass_resolve)
next
  assume h: "split_k_style c \<noteq> NO_SPLIT_K \<or> tile_config c = Undefined \<or>
    tile_config c = ChooseWithHeuristic"
  show "\<exists>e. dispatch_to_arch env r tag a c occ s = (Some e, s)"
  proof (cases "resolve_kernel r tag c")
    case (Inl e)
    then show ?thesis by (simp add: dispatch_to_arch_resolve)
  next
    case (Inr k')
    from resolve_kernel_no_split_k [OF this] resolve_kernel_tile [OF this] h
    show ?thesis by blast
  qed
qed

theorem split_k_and_placeholder_tiles_rejected_witness:
  "generic_moe_gemm_kernelLauncher example_env
      (example_kernel Sm80 EpilogueOpBias (32, 128, 64) (32, 32, 64)) (example_call 8)
      ((example_config CtaShape32x128x64_WarpShape32x32x64 2)\<lparr>split_k_style := SPLIT_K_SERIAL\<rparr>)
      108 None example_state =
     (Some SplitKNotSupported, example_state) \<and>
   dispatch_moe_gemm_to_cutlass example_env Half Half Sm80 EpilogueOpBias (example_call 8)
      (example_config Undefined 2) 80 108 None example_state =
     (Some (GemmConfigUndefined SameType), example_state) \<and>
   dispatch_moe_gemm_to_cutlass example_env Half UInt8 Sm80 EpilogueOpBias (example_call 8)
      (example_config ChooseWithHeuristic 2) 80 108 None example_state =
     (Some (GemmConfigNotSetByHeuristic MixedType), example_state) \<and>
   (\<exists>e. dispatch_to_arch example_env (example_runner 80) EpilogueOpBias (example_call 8)
      ((example_config CtaShape32x128x64_WarpShape32x32x64 2)\<lparr>split_k_style := SPLIT_K_SERIAL\<rparr>)
      None example_state =
     (Some e, example_state))"
  using split_k_and_placeholder_tiles_rejected
      [where c = "(example_config CtaShape32x128x64_WarpShape32x32x64 2)\<lparr>split_k_style := SPLIT_K_SERIAL\<rparr>"
        and env = example_env and k = "example_kernel Sm80 EpilogueOpBias (32, 128, 64) (32, 32, 64)"
        and a = "example_call 8" and mp = 108 and occ = None and s = example_state
        and r = "example_runner 80" and tag = EpilogueOpBias]
    split_k_and_placeholder_tiles_rejected
      [where c = "example_config Undefined 2" and env = example_env and T = Half and W = Half
        and ar = Sm80 and tag = EpilogueOpBias and a = "example_call 8" and smv = 80 and mp = 108
        and occ = None and s = example_state]
    split_k_and_placeholder_tiles_rejected
      [where c = "example_config ChooseWithHeuristic 2" and env = example_env and T = Half
        and W = UInt8 and ar = Sm80 and tag = EpilogueOpBias and a = "example_call 8" and smv = 80
        and mp = 108 and occ = None and s = example_state]
  by (simp add: example_config_def path_of_def)



text \<open>
  Claim C8, as stated, fails: the split-k check comes before the test of the occupancy
  pointer. Called in probe mode with a configuration that asks for split-k, the launcher
  throws and the slot keeps its old value 0, although the occupancy of the kernel is 1.
\<close>

theorem launcher_probe_mode_counterexample:
  "generic_moe_gemm_kernelLauncher example_env
      (example_kernel Sm80 EpilogueOpBias (32, 128, 64) (32, 32, 64)) (example_call 8)
      ((example_config CtaShape32x128x64_WarpShape32x32x64 2)\<lparr>split_k_style := SPLIT_K_SERIAL\<rparr>)
      108 (Some 0) (example_state\<lparr>occupancies := [0]\<rparr>) =
     (Some SplitKNotSupported, example_state\<lparr>occupancies := [0]\<rparr>) \<and>
   compute_occupancy_for_kernel example_env
      (example_kernel Sm80 EpilogueOpBias (32, 128, 64) (32, 32, 64)) = 1"
  by (simp add: generic_moe_gemm_kernelLauncher_def example_config_def example_env_def)

text \<open>
  Claim C8, amended. In probe mode (non-null occupancy pointer) with a configuration that
  does not ask for split-k, the launcher makes the one occupancy query, writes the result
  through the pointer and returns: no feasibility check, no initialisation and no launch;
  with a configuration that asks for split-k it throws before the query, with the state
  untouched. In both cases device memory and the list of launches are as before.
\<close>

theorem launcher_probe_mode:
  "(split_k_style c = NO_SPLIT_K \<longrightarrow>
      generic_moe_gemm_kernelLauncher env k a c mp (Some p) s =
        (None, s\<lparr>calls := calls s @ [ComputeOccupancy k],
                 occupancies := (occupancies s)[p := compute_occupancy_for_kernel env k]\<rparr>)) \<and>
   (split_k_style c \<noteq> NO_SPLIT_K \<longrightarrow>
      generic_moe_gemm_kernelLauncher env k a c mp (Some p) s = (Some SplitKNotSupported, s)) \<and>
   mem (snd (generic_moe_gemm_kernelLauncher env k a c mp (Some p) s)) = mem s \<and>
   launches (calls (snd (generic_moe_gemm_kernelLauncher env k a c mp (Some p) s))) =
     launches (calls s)"
  by (cases "split_k_style c = NO_SPLIT_K")
     (simp_all add: launcher_probe launcher_split_k launches_append)

theorem launcher_probe_mode_witness:
  "generic_moe_gemm_kernelLauncher example_env
      (example_kernel Sm80 EpilogueOpBias (32, 128, 64) (32, 32, 64)) (example_call 8)
      (example_config CtaShape32x128x64_WarpShape32x32x64 2)
      108 (Some 1) (example_state\<lparr>occupancies := [0, 0]\<rparr>) =
     (None,
      \<lparr>calls = [ComputeOccupancy (example_kernel Sm80 EpilogueOpBias (32, 128, 64) (32, 32, 64))],
       occupancies = [0, 1], mem = 0\<rparr>) \<and>
   generic_moe_gemm_kernelLauncher example_env
      (example_kernel Sm80 EpilogueOpBias (32, 128, 64) (32, 32, 64)) (example_call 8)
      ((example_config CtaShape32x128x64_WarpShape32x32x64 2)\<lparr>split_k_style := SPLIT_K_SERIAL\<rparr>)
      108 (Some 1) (example_state\<lparr>occupancies := [0, 0]\<rparr>) =
     (Some SplitKNotSupported, example_state\<lparr>occupancies := [0, 0]\<rparr>)"
  using launcher_probe_mode [where c = "example_config CtaShape32x128x64_WarpShape32x32x64 2"
      and env = example_env and k = "example_kernel Sm80 EpilogueOpBias (32, 128, 64) (32, 32, 64)"
      and a = "example_call 8" and mp = 108 and p = 1
      and s = "example_state\<lparr>occupancies := [0, 0]\<rparr>"]
    launcher_probe_mode [where
      c = "(example_config CtaShape32x128x64_WarpShape32x32x64 2)\<lparr>split_k_style := SPLIT_K_SERIAL\<rparr>"
      and env = example_env and k = "example_kernel Sm80 EpilogueOpBias (32, 128, 64) (32, 32, 64)"
      and a = "example_call 8" and mp = 108 and p = 1
      and s = "example_state\<lparr>occupancies := [0, 0]\<rparr>"]
  by (simp add: example_config_def example_env_def example_state_def)




text \<open>
  Claim C10. When the candidates before \<open>c\<close> have been probed and the dispatch of \<open>c\<close>
  throws \<open>e\<close>, \<^verbatim>\<open>run_gemm\<close> ends with \<open>e\<close> in the state the loop had reached: the failing
  dispatch changed nothing, exactly the candidates before \<open>c\<close> were probed, no
  configuration is chosen, no kernel is launched and device memory is as it was.
\<close>

theorem probe_error_aborts_run_gemm:
  assumes "get_candidate_configs env (sm r) (elem_type r \<noteq> weight_type r) (elem_type r = Float) =
      pre @ c # post"
    and "probe_candidates env r tag a pre 0
      (s\<lparr>occupancies := replicate (length (pre @ c # post)) 0\<rparr>) = (None, s1)"
    and "dispatch_to_arch env r tag a c (Some (length pre)) s1 = (Some e, s2)"
  shows "run_gemm env r tag a s = (Some e, s1) \<and> s2 = s1 \<and>
     chosen_config env r tag a s = None \<and>
     (\<exists>ks. length ks = length pre \<and> calls s1 = calls s @ map ComputeOccupancy ks) \<and>
     launches (calls s1) = launches (calls s) \<and> mem s1 = mem s"
proof -
  let ?s0 = "s\<lparr>occupancies := replicate (length (pre @ c # post)) 0\<rparr>"
  from assms(3) have c: "resolve_kernel r tag c = Inl e" and s2: "s2 = s1"
    by (auto simp: dispatch_to_arch_probe split: sum.splits)
  from assms(2) have pre: "snd (resolve_prefix r tag pre) = None"
    and s1: "s1 = probed env (fst (resolve_prefix r tag pre)) 0 ?s0"
    by (simp_all add: probe_candidates_resolve)
  have loop: "probe_candidates env r tag a (pre @ c # post) 0 ?s0 = (Some e, s1)"
    using assms(2) c by (simp add: probe_candidates_append dispatch_to_arch_probe)
  have "run_gemm env r tag a s = (Some e, s1)"
    using loop by (simp add: run_gemm_def assms(1))
  moreover have "chosen_config env r tag a s = None"
    using loop by (simp add: chosen_config_def assms(1))
  moreover have "length (fst (resolve_prefix r tag pre)) = length pre"
    using pre by (rule resolve_prefix_all_length)
  moreover have "calls s1 = calls s @ map ComputeOccupancy (fst (resolve_prefix r tag pre))"
    by (simp add: s1 probed_calls)
  moreover have "launches (calls s1) = launches (calls s)"
    by (simp add: s1 probed_calls launches_append launches_probes)
  moreover have "mem s1 = mem s"
    by (simp add: s1 probed_mem)
  ultimately show ?thesis using s2 by blast
qed

lemma example_stages3_probe_first:
  "probe_candidates example_env_stages3 (example_runner 75) tag a
      [example_config CtaShape32x128x64_WarpShape32x32x64 2] 0 (s\<lparr>occupancies := [0, 0, 0]\<rparr>) =
     (None, s\<lparr>calls := calls s @ [ComputeOccupancy (example_kernel Sm75 tag (32, 128, 64) (32, 32, 64))],
              occupancies := [1, 0, 0]\<rparr>)"
  by (simp add: dispatch_to_arch_probe resolve_kernel_def arch_of_sm_def path_of_def
        example_env_stages3_def example_env_def example_runner_def example_config_def
        example_kernel_def)

lemma example_stages3_probe_second:
  "dispatch_to_arch example_env_stages3 (example_runner 75) tag a
      (example_config CtaShape32x128x64_WarpShape32x32x64 3) occ s =
     (Some (StagesNotInstantiated Sm75 3), s)"
  by (simp add: dispatch_to_arch_resolve resolve_kernel_def arch_of_sm_def path_of_def
        example_runner_def example_config_def)

theorem probe_error_aborts_run_gemm_witness:
  "run_gemm example_env_stages3 (example_runner 75) EpilogueOpBias (example_call 8) example_state =
     (Some (StagesNotInstantiated Sm75 3),
      \<lparr>calls = [ComputeOccupancy (example_kernel Sm75 EpilogueOpBias (32, 128, 64) (32, 32, 64))],
       occupancies = [1, 0, 0], mem = 0\<rparr>) \<and>
   chosen_config example_env_stages3 (example_runner 75) EpilogueOpBias (example_call 8)
     example_state = None"
proof -
  have cands: "get_candidate_configs example_env_stages3 (sm (example_runner 75))
      (elem_type (example_runner 75) \<noteq> weight_type (example_runner 75))
      (elem_type (example_runner 75) = Float) =
      [example_config CtaShape32x128x64_WarpShape32x32x64 2] @
      example_config CtaShape32x128x64_WarpShape32x32x64 3 #
      [example_config CtaShape64x128x64_WarpShape32x64x64 2]"
    by (simp add: example_env_stages3_def)
  have first: "probe_candidates example_env_stages3 (example_runner 75) EpilogueOpBias (example_call 8)
      [example_config CtaShape32x128x64_WarpShape32x32x64 2] 0
      (example_state\<lparr>occupancies := replicate
         (length ([example_config CtaShape32x128x64_WarpShape32x32x64 2] @
            example_config CtaShape32x128x64_WarpShape32x32x64 3 #
            [example_config CtaShape64x128x64_WarpShape32x64x64 2])) 0\<rparr>) =
      (None, \<lparr>calls = [ComputeOccupancy (example_kernel Sm75 EpilogueOpBias (32, 128, 64) (32, 32, 64))],
              occupancies = [1, 0, 0], mem = 0\<rparr>)"
    using example_stages3_probe_first [of EpilogueOpBias "example_call 8" example_state]
    by (simp add: example_state_def numeral_3_eq_3)
  have second: "dispatch_to_arch example_env_stages3 (example_runner 75) EpilogueOpBias (example_call 8)
      (example_config CtaShape32x128x64_WarpShape32x32x64 3)
      (Some (length [example_config CtaShape32x128x64_WarpShape32x32x64 2]))
      \<lparr>calls = [ComputeOccupancy (example_kernel Sm75 EpilogueOpBias (32, 128, 64) (32, 32, 64))],
       occupancies = [1, 0, 0], mem = 0\<rparr> =
      (Some (StagesNotInstantiated Sm75 3),
       \<lparr>calls = [ComputeOccupancy (example_kernel Sm75 EpilogueOpBias (32, 128, 64) (32, 32, 64))],
        occupancies = [1, 0, 0], mem = 0\<rparr>)"
    by (simp add: example_stages3_probe_second)
  from probe_error_aborts_run_gemm [OF cands first second] show ?thesis by simp
qed

text \<open>
  Claim C1, as stated for every invocation, fails: on a device of capability 60 the
  catalog has two candidates, but \<^verbatim>\<open>run_gemm\<close> throws at the first dispatch; nothing is
  probed and nothing is launched.
\<close>

theorem run_gemm_unsupported_arch_counterexample:
  "run_gemm example_env (example_runner 60) EpilogueOpBiasReLU (example_call 8) example_state =
     (Some ArchUnsupported, \<lparr>calls = [], occupancies = [0, 0], mem = 0\<rparr>) \<and>
   get_candidate_configs example_env 60 False False =
     [example_config CtaShape32x128x64_WarpShape32x32x64 2,
      example_config CtaShape64x128x64_WarpShape32x64x64 2]"
proof -
  have "run_gemm example_env (example_runner 60) EpilogueOpBiasReLU (example_call 8) example_state =
      (Some ArchUnsupported, \<lparr>calls = [], occupancies = [0, 0], mem = 0\<rparr>)"
    by (simp add: example_run_gemm_unsupported example_state_def)
  moreover have "get_candidate_configs example_env 60 False False =
      [example_config CtaShape32x128x64_WarpShape32x32x64 2,
       example_config CtaShape64x128x64_WarpShape32x64x64 2]"
    by (simp add: example_env_def)
  ultimately show ?thesis by (rule conjI)
qed

text \<open>
  Claim C1, amended. For every invocation of \<^verbatim>\<open>run_gemm\<close> that returns normally: every
  candidate \<open>catalog env r ! j\<close> of the catalog was resolved to a kernel \<open>ks ! j\<close> and
  probed, in catalog order, and the occupancies are the results of those probes; the
  selector has chosen exactly one configuration \<open>c\<close> from those candidates, the \<open>i\<close>-th,
  whose probed occupancy is not zero; and exactly one kernel launch is issued, of the
  kernel \<open>ks ! i\<close> that was probed for \<open>c\<close>.
\<close>

theorem run_gemm_probe_select_launch:
  assumes "run_gemm env r tag a s = (None, s')"
  shows "\<exists>ks c i k args.
     map (resolve_kernel r tag) (catalog env r) = map Inr ks \<and>
     occupancies s' = map (compute_occupancy_for_kernel env) ks \<and>
     estimate_best_config_from_occupancies env (catalog env r)
       (map (compute_occupancy_for_kernel env) ks)
       (total_rows a) (gemm_n a) (gemm_k a) (num_experts a) 1 0
       (multi_processor_count r) (elem_type r \<noteq> weight_type r) = Inr c \<and>
     chosen_config env r tag a s = Some c \<and>
     c \<in> set (catalog env r) \<and> i < length (catalog env r) \<and> c = catalog env r ! i \<and>
     k = ks ! i \<and> k \<in> set ks \<and> compute_occupancy_for_kernel env k \<noteq> 0 \<and>
     resolve_kernel r tag c = Inr k \<and>
     calls s' = calls s @ map ComputeOccupancy ks @
       [MaximumActiveBlocks k, CanImplement k args, Initialize k args, Run k args (stream a)] \<and>
     launches (calls s') = launches (calls s) @ [(k, args)]"
proof -
  let ?ks = "fst (resolve_prefix r tag (catalog env r))"
  from run_gemm_ok [OF assms] obtain c i k where
    none: "snd (resolve_prefix r tag (catalog env r)) = None" and
    sel: "selected env r tag a = Inr c" and
    i: "i < length (catalog env r)" "c = catalog env r ! i" "k = ?ks ! i" and
    k: "resolve_kernel r tag c = Inr k" "compute_occupancy_for_kernel env k \<noteq> 0" and
    calls: "calls s' = calls s @ map ComputeOccupancy ?ks @
       [MaximumActiveBlocks k,
        CanImplement k (grouped_arguments a
          (wrap_int32 (multi_processor_count r * min 2 (maximum_active_blocks env k)))),
        Initialize k (grouped_arguments a
          (wrap_int32 (multi_processor_count r * min 2 (maximum_active_blocks env k)))),
        Run k (grouped_arguments a
          (wrap_int32 (multi_processor_count r * min 2 (maximum_active_blocks env k)))) (stream a)]" and
    occ: "occupancies s' = map (compute_occupancy_for_kernel env) ?ks"
    by blast
  have all: "map (resolve_kernel r tag) (catalog env r) = map Inr ?ks"
    using none by (rule resolve_prefix_complete)
  have len: "length ?ks = length (catalog env r)"
    using none by (rule resolve_prefix_all_length)
  have chosen: "chosen_config env r tag a s = Some c"
    using none sel by (simp add: chosen_config_resolve)
  have member: "c \<in> set (catalog env r)" "k \<in> set ?ks"
    using i len by simp_all
  have "launches (calls s') = launches (calls s) @
       [(k, grouped_arguments a
          (wrap_int32 (multi_processor_count r * min 2 (maximum_active_blocks env k))))]"
    by (simp add: calls launches_append launches_probes)
  with all occ sel chosen member i k calls show ?thesis by blast
qed

theorem run_gemm_probe_select_launch_witness:
  "chosen_config example_env (example_runner 80) EpilogueOpBiasReLU (example_call 8) example_state =
     Some (example_config CtaShape32x128x64_WarpShape32x32x64 2) \<and>
   (\<exists>args. launches (calls (snd (run_gemm example_env (example_runner 80) EpilogueOpBiasReLU
      (example_call 8) example_state))) =
     [(example_kernel Sm80 EpilogueOpBiasReLU (32, 128, 64) (32, 32, 64), args)])"
proof -
  let ?run = "run_gemm example_env (example_runner 80) EpilogueOpBiasReLU (example_call 8) example_state"
  have run: "?run = (None, snd ?run)"
    by (simp add: example_run_gemm)
  have occs: "\<And>ks. length ks = 2 \<Longrightarrow> map (compute_occupancy_for_kernel example_env) ks = [1, 1]"
    by (auto simp: example_env_def length_Suc_conv numeral_2_eq_2)
  have cands: "catalog example_env (example_runner 80) =
      [example_config CtaShape32x128x64_WarpShape32x32x64 2,
       example_config CtaShape64x128x64_WarpShape32x64x64 2]"
    by (simp add: example_env_def)
  from run_gemm_probe_select_launch [OF run] obtain ks c k args where
    ks: "map (resolve_kernel (example_runner 80) EpilogueOpBiasReLU)
           (catalog example_env (example_runner 80)) = map Inr ks" and
    c: "estimate_best_config_from_occupancies example_env (catalog example_env (example_runner 80))
           (map (compute_occupancy_for_kernel example_env) ks)
           (total_rows (example_call 8)) (gemm_n (example_call 8)) (gemm_k (example_call 8))
           (num_experts (example_call 8)) 1 0
           (multi_processor_count (example_runner 80))
           (elem_type (example_runner 80) \<noteq> weight_type (example_runner 80)) = Inr c" and
    chosen: "chosen_config example_env (example_runner 80) EpilogueOpBiasReLU (example_call 8)
      example_state = Some c" and
    k: "resolve_kernel (example_runner 80) EpilogueOpBiasReLU c = Inr k" and
    l: "launches (calls (snd ?run)) = launches (calls example_state) @ [(k, args)]"
    by blast
  from ks have "length ks = 2"
    unfolding cands by (metis length_map length_Cons list.size(3) numeral_2_eq_2)
  with c have c': "c = example_config CtaShape32x128x64_WarpShape32x32x64 2"
    unfolding cands by (simp add: occs example_selected)
  have k': "k = example_kernel Sm80 EpilogueOpBiasReLU (32, 128, 64) (32, 32, 64)"
    using k unfolding c'
    by (simp add: resolve_kernel_def arch_of_sm_def path_of_def example_runner_def
          example_config_def example_kernel_def)
  have "launches (calls (snd ?run)) =
      [(example_kernel Sm80 EpilogueOpBiasReLU (32, 128, 64) (32, 32, 64), args)]"
    using l unfolding k' by (simp add: example_state_def)
  then have "\<exists>args. launches (calls (snd ?run)) =
      [(example_kernel Sm80 EpilogueOpBiasReLU (32, 128, 64) (32, 32, 64), args)]" ..
  with chosen show ?thesis unfolding c' by blast
qed




end
